theory Spec2Isabelle
  imports Main "HOL-Library.Word" "HOL-Library.AList"
begin

section \<open>gocache: an in-process cache with per-entry expiration\<close>

text \<open>
  The development embeds \<^verbatim>\<open>gocache.go\<close>. The file holds the package twice. The
  two copies agree on \<^verbatim>\<open>Set\<close>, \<^verbatim>\<open>Get\<close>, \<^verbatim>\<open>Delete\<close>, \<^verbatim>\<open>expiredKeys\<close> and
  \<^verbatim>\<open>clearItems\<close>; the second adds \<^verbatim>\<open>Count\<close>, \<^verbatim>\<open>GetItem\<close> and \<^verbatim>\<open>Expire\<close>. They
  differ in \<^verbatim>\<open>startGC\<close>: in the first copy it is the sweep loop itself, run by the
  caller; in the second it is \<^verbatim>\<open>go c.gc()\<close>, with the same loop as the body of
  \<^verbatim>\<open>gc\<close>. Both are embedded, as \<open>startGC_inline\<close> and \<open>startGC\<close>, and with them
  the two \<^verbatim>\<open>New\<close>, as \<open>New_inline\<close> and \<open>New\<close>.

  \<^item> \<^verbatim>\<open>int64\<close> and \<^verbatim>\<open>time.Duration\<close> are 64-bit words read as two's complement:
    \<open>+\<close> wraps, \<open><s\<close> is Go's signed \<open><\<close>.
  \<^item> \<^verbatim>\<open>interface{}\<close> is \<open>'v option\<close>, with \<open>None\<close> for \<^verbatim>\<open>nil\<close>.
  \<^item> \<^verbatim>\<open>map[string]Item\<close> is an association list with one pair per key; the order of
    the list is the order in which \<^verbatim>\<open>range\<close> visits the entries.
  \<^item> \<^verbatim>\<open>sync.RWMutex\<close> is part of the state. A call that has to wait for a lock that
    is held when the call starts yields \<open>Inl Blocked\<close>. The field \<^verbatim>\<open>mu\<close> is
    unexported and the only \<^verbatim>\<open>Unlock\<close> of the package follows a \<^verbatim>\<open>Lock\<close> inside the
    same call, so a write lock that a call has left held is released by nobody and the
    wait does not end. Calls are taken one at a time; what two goroutines do to the map
    at the same moment is outside the model.
  \<^item> \<^verbatim>\<open>time.Now()\<close> is a clock handed to every operation: \<open>clk n\<close> is what the
    \<open>n\<close>-th call of \<^verbatim>\<open>time.Now()\<close> inside the operation reads, in nanoseconds since
    the Unix epoch. A \<^verbatim>\<open>time.Time\<close> is kept as that number.
\<close>

subsection \<open>Data\<close>

type_synonym int64 = "64 word"

type_synonym clock = "nat \<Rightarrow> int64"

datatype fault =
    Blocked   \<comment> \<open>the caller waits in \<^verbatim>\<open>Lock\<close> or \<^verbatim>\<open>RLock\<close>\<close>
  | Fatal     \<comment> \<open>\<^verbatim>\<open>Unlock\<close> or \<^verbatim>\<open>RUnlock\<close> of a mutex that is not locked that way\<close>

record RWMutex =
  writer :: bool
  readers :: nat

record 'v Item =
  Value :: "'v option"
  Created :: int64
  Expiration :: int64

record 'v Cache =
  mu :: RWMutex
  defaultExpiration :: int64
  cleanupInterval :: int64
  items :: "(string \<times> 'v Item) list"

subsection \<open>sync.RWMutex\<close>

definition Lock :: "RWMutex \<Rightarrow> fault + RWMutex" where
  "Lock m = (if writer m \<or> 0 < readers m then Inl Blocked else Inr (m\<lparr>writer := True\<rparr>))"

definition Unlock :: "RWMutex \<Rightarrow> fault + RWMutex" where
  "Unlock m = (if writer m then Inr (m\<lparr>writer := False\<rparr>) else Inl Fatal)"

definition RLock :: "RWMutex \<Rightarrow> fault + RWMutex" where
  "RLock m = (if writer m then Inl Blocked else Inr (m\<lparr>readers := Suc (readers m)\<rparr>))"

definition RUnlock :: "RWMutex \<Rightarrow> fault + RWMutex" where
  "RUnlock m = (if 0 < readers m then Inr (m\<lparr>readers := readers m - 1\<rparr>) else Inl Fatal)"

subsection \<open>Set, Get, Delete\<close>

text \<open>
  \<^verbatim>\<open>time.Now().Add(duration).UnixNano()\<close> is the wrapped 64-bit sum of the reading and
  the duration. \<^verbatim>\<open>Set\<close> has no \<^verbatim>\<open>Unlock\<close>: the mutex stays write-locked in the state
  it returns.
\<close>

definition Set :: "'v Cache \<Rightarrow> clock \<Rightarrow> string \<Rightarrow> 'v option \<Rightarrow> int64 \<Rightarrow> fault + (unit \<times> 'v Cache)" where
  "Set c clk key val duration =
     (let duration = (if duration = 0 then defaultExpiration c else duration);
          expiration = (if 0 <s duration then clk 0 + duration else 0)
      in case Lock (mu c) of
           Inl f \<Rightarrow> Inl f
         | Inr m \<Rightarrow>
             Inr ((), c\<lparr>mu := m,
                       items := AList.update key
                                  \<lparr>Value = val,
                                   Created = clk (if 0 <s duration then 1 else 0),
                                   Expiration = expiration\<rparr>
                                  (items c)\<rparr>))"

definition Get :: "'v Cache \<Rightarrow> clock \<Rightarrow> string \<Rightarrow> fault + (('v option \<times> bool) \<times> 'v Cache)" where
  "Get c clk key =
     (case RLock (mu c) of
        Inl f \<Rightarrow> Inl f
      | Inr m1 \<Rightarrow>
          (let found = map_of (items c) key in
           case RUnlock m1 of
             Inl f \<Rightarrow> Inl f
           | Inr m2 \<Rightarrow>
               (case found of
                  None \<Rightarrow> Inr ((None, False), c\<lparr>mu := m2\<rparr>)
                | Some item \<Rightarrow>
                    if 0 <s Expiration item \<and> Expiration item <s clk 0
                    then Inr ((None, False), c\<lparr>mu := m2\<rparr>)
                    else Inr ((Value item, True), c\<lparr>mu := m2\<rparr>))))"

text \<open>The not-found branch of \<^verbatim>\<open>Delete\<close> returns before \<^verbatim>\<open>Unlock\<close>.\<close>

definition Delete :: "'v Cache \<Rightarrow> string \<Rightarrow> fault + (string option \<times> 'v Cache)" where
  "Delete c key =
     (case Lock (mu c) of
        Inl f \<Rightarrow> Inl f
      | Inr m1 \<Rightarrow>
          (case map_of (items c) key of
             None \<Rightarrow> Inr (Some ''key not found'', c\<lparr>mu := m1\<rparr>)
           | Some _ \<Rightarrow>
               (case Unlock m1 of
                  Inl f \<Rightarrow> Inl f
                | Inr m2 \<Rightarrow> Inr (None, c\<lparr>mu := m2, items := AList.delete key (items c)\<rparr>))))"

subsection \<open>The sweep\<close>

text \<open>
  The loop of \<^verbatim>\<open>expiredKeys\<close> reads the clock once per entry: \<open>clk n\<close> is the
  reading taken at the \<open>n\<close>-th entry visited.
\<close>

fun expiredLoop :: "(string \<times> 'v Item) list \<Rightarrow> clock \<Rightarrow> nat \<Rightarrow> string list \<Rightarrow> string list" where
  "expiredLoop [] clk n keys = keys"
| "expiredLoop ((k, i) # rest) clk n keys =
     expiredLoop rest clk (Suc n)
       (if Expiration i <s clk n \<and> 0 <s Expiration i then keys @ [k] else keys)"

definition expiredKeys :: "'v Cache \<Rightarrow> clock \<Rightarrow> fault + (string list \<times> 'v Cache)" where
  "expiredKeys c clk =
     (case RLock (mu c) of
        Inl f \<Rightarrow> Inl f
      | Inr m1 \<Rightarrow>
          (let keys = expiredLoop (items c) clk 0 [] in
           case RUnlock m1 of
             Inl f \<Rightarrow> Inl f
           | Inr m2 \<Rightarrow> Inr (keys, c\<lparr>mu := m2\<rparr>)))"

fun clearLoop :: "string list \<Rightarrow> (string \<times> 'v Item) list \<Rightarrow> (string \<times> 'v Item) list" where
  "clearLoop [] its = its"
| "clearLoop (k # ks) its = clearLoop ks (AList.delete k its)"

text \<open>\<^verbatim>\<open>clearItems\<close> has no \<^verbatim>\<open>Unlock\<close> either.\<close>

definition clearItems :: "'v Cache \<Rightarrow> string list \<Rightarrow> fault + (unit \<times> 'v Cache)" where
  "clearItems c keys =
     (case Lock (mu c) of
        Inl f \<Rightarrow> Inl f
      | Inr m \<Rightarrow> Inr ((), c\<lparr>mu := m, items := clearLoop keys (items c)\<rparr>))"

text \<open>
  One turn of the \<^verbatim>\<open>for\<close> loop of \<^verbatim>\<open>gc\<close>, after the timer has fired. \<^verbatim>\<open>c.items\<close>
  is made by \<^verbatim>\<open>New\<close> and never assigned again, so the \<^verbatim>\<open>nil\<close> test is false.
\<close>

definition gcPass :: "'v Cache \<Rightarrow> clock \<Rightarrow> fault + (unit \<times> 'v Cache)" where
  "gcPass c clk =
     (case expiredKeys c clk of
        Inl f \<Rightarrow> Inl f
      | Inr (keys, c1) \<Rightarrow>
          if length keys \<noteq> 0 then clearItems c1 keys else Inr ((), c1))"

text \<open>
  The loop of \<^verbatim>\<open>gc\<close> itself, for a given number of timer expiries: \<open>clks j\<close> is the
  clock of the \<open>j\<close>-th turn. \<open>None\<close> says that the loop is still running after that
  many turns, \<open>Some (Inl f)\<close> that a turn got stuck, \<open>Some (Inr r)\<close> that the loop has
  returned.
\<close>

fun gc :: "nat \<Rightarrow> 'v Cache \<Rightarrow> (nat \<Rightarrow> clock) \<Rightarrow> (fault + (unit \<times> 'v Cache)) option" where
  "gc 0 c clks = None"
| "gc (Suc turns) c clks =
     (case gcPass c (clks 0) of
        Inl f \<Rightarrow> Some (Inl f)
      | Inr (_, c') \<Rightarrow> gc turns c' (\<lambda>j. clks (Suc j)))"

subsection \<open>Construction\<close>

text \<open>
  A goroutine is kept as the method it runs: given the cache it is bound to, as that
  cache is when the goroutine gets to run, and the clocks of its turns, it says where the
  method stands after a number of timer expiries.
\<close>

type_synonym 'v goroutine =
  "nat \<Rightarrow> 'v Cache \<Rightarrow> (nat \<Rightarrow> clock) \<Rightarrow> (fault + (unit \<times> 'v Cache)) option"

text \<open>
  The second copy: \<^verbatim>\<open>startGC\<close> is \<^verbatim>\<open>go c.gc()\<close>. It hands \<^verbatim>\<open>gc\<close>, with \<^verbatim>\<open>c\<close> as its
  receiver, to a new goroutine and returns at once; \<^verbatim>\<open>New\<close> returns the cache and the
  goroutines it has started.
\<close>

definition startGC :: "'v Cache \<Rightarrow> 'v goroutine list" where
  "startGC c = [gc]"

definition New :: "int64 \<Rightarrow> int64 \<Rightarrow> 'v Cache \<times> 'v goroutine list" where
  "New defaultExp cleanupInt =
     (let cache = \<lparr>mu = \<lparr>writer = False, readers = 0\<rparr>,
                   defaultExpiration = defaultExp,
                   cleanupInterval = cleanupInt,
                   items = []\<rparr>
      in (cache, if 0 <s cleanupInt then startGC cache else []))"

text \<open>
  The first copy: \<^verbatim>\<open>startGC\<close> has the loop as its own body, so the caller runs it, and
  \<^verbatim>\<open>New\<close> gets to its \<^verbatim>\<open>return\<close> only when \<^verbatim>\<open>startGC\<close> has returned. As for \<open>gc\<close>,
  \<open>None\<close> says that the call has not returned after the given number of timer
  expiries.
\<close>

fun startGC_inline ::
  "nat \<Rightarrow> 'v Cache \<Rightarrow> (nat \<Rightarrow> clock) \<Rightarrow> (fault + (unit \<times> 'v Cache)) option" where
  "startGC_inline 0 c clks = None"
| "startGC_inline (Suc turns) c clks =
     (case expiredKeys c (clks 0) of
        Inl f \<Rightarrow> Some (Inl f)
      | Inr (keys, c1) \<Rightarrow>
          if length keys \<noteq> 0
          then (case clearItems c1 keys of
                  Inl f \<Rightarrow> Some (Inl f)
                | Inr (_, c2) \<Rightarrow> startGC_inline turns c2 (\<lambda>j. clks (Suc j)))
          else startGC_inline turns c1 (\<lambda>j. clks (Suc j)))"

definition New_inline ::
  "nat \<Rightarrow> (nat \<Rightarrow> clock) \<Rightarrow> int64 \<Rightarrow> int64 \<Rightarrow> (fault + 'v Cache) option" where
  "New_inline turns clks defaultExp cleanupInt =
     (let cache = \<lparr>mu = \<lparr>writer = False, readers = 0\<rparr>,
                   defaultExpiration = defaultExp,
                   cleanupInterval = cleanupInt,
                   items = []\<rparr>
      in if 0 <s cleanupInt
         then (case startGC_inline turns cache clks of
                 None \<Rightarrow> None
               | Some (Inl f) \<Rightarrow> Some (Inl f)
               | Some (Inr (_, cache')) \<Rightarrow> Some (Inr cache'))
         else Some (Inr cache))"

subsection \<open>Count, GetItem, Expire\<close>

text \<open>\<^verbatim>\<open>Count\<close> takes no lock.\<close>

fun countLoop :: "(string \<times> 'v Item) list \<Rightarrow> int \<Rightarrow> int" where
  "countLoop [] n = n"
| "countLoop (e # rest) n = countLoop rest (n + 1)"

definition Count :: "'v Cache \<Rightarrow> fault + (int \<times> 'v Cache)" where
  "Count c = Inr (countLoop (items c) 0, c)"

definition GetItem :: "'v Cache \<Rightarrow> clock \<Rightarrow> string \<Rightarrow> fault + ((string + 'v Item) \<times> 'v Cache)" where
  "GetItem c clk key =
     (case RLock (mu c) of
        Inl f \<Rightarrow> Inl f
      | Inr m1 \<Rightarrow>
          (let found = map_of (items c) key in
           case RUnlock m1 of
             Inl f \<Rightarrow> Inl f
           | Inr m2 \<Rightarrow>
               (case found of
                  None \<Rightarrow> Inr (Inl ''key not found'', c\<lparr>mu := m2\<rparr>)
                | Some item \<Rightarrow>
                    if 0 <s Expiration item \<and> Expiration item <s clk 0
                    then Inr (Inl ''key not found'', c\<lparr>mu := m2\<rparr>)
                    else Inr (Inr \<lparr>Value = Value item,
                                   Created = Created item,
                                   Expiration = Expiration item\<rparr>, c\<lparr>mu := m2\<rparr>))))"

definition Expire :: "'v Cache \<Rightarrow> clock \<Rightarrow> string \<Rightarrow> fault + (bool \<times> 'v Cache)" where
  "Expire c clk key =
     (case RLock (mu c) of
        Inl f \<Rightarrow> Inl f
      | Inr m1 \<Rightarrow>
          (let found = map_of (items c) key in
           case RUnlock m1 of
             Inl f \<Rightarrow> Inl f
           | Inr m2 \<Rightarrow>
               (case found of
                  None \<Rightarrow> Inr (True, c\<lparr>mu := m2\<rparr>)
                | Some item \<Rightarrow>
                    if 0 <s Expiration item \<and> Expiration item <s clk 0
                    then Inr (True, c\<lparr>mu := m2\<rparr>)
                    else Inr (False, c\<lparr>mu := m2\<rparr>))))"

text \<open>Sequencing of calls: the next call runs on the state the previous one returned.\<close>

definition andThen :: "fault + ('a \<times> 's) \<Rightarrow> ('s \<Rightarrow> fault + ('b \<times> 's)) \<Rightarrow> fault + ('b \<times> 's)" where
  "andThen r f = (case r of Inl e \<Rightarrow> Inl e | Inr (_, s) \<Rightarrow> f s)"

subsection \<open>Auxiliary notions\<close>

text \<open>A clock that reads the same instant at every call.\<close>

definition fixedClock :: "int64 \<Rightarrow> clock" where
  "fixedClock t n = t"

text \<open>No stored entry has a negative \<^verbatim>\<open>Expiration\<close>.\<close>

definition nonnegExpirations :: "'v Cache \<Rightarrow> bool" where
  "nonnegExpirations c = list_all (\<lambda>(k, i). 0 \<le>s Expiration i) (items c)"

text \<open>What the lookup shared by \<^verbatim>\<open>Get\<close>, \<^verbatim>\<open>GetItem\<close> and \<^verbatim>\<open>Expire\<close> decides.\<close>

definition live :: "'v Item \<Rightarrow> int64 \<Rightarrow> bool" where
  "live item now = (\<not> (0 <s Expiration item \<and> Expiration item <s now))"

text \<open>
  The states a program can bring a cache into: it starts from \<^verbatim>\<open>New\<close> and every
  further state is the one a completed call leaves behind. The two halves of a sweep
  are separate steps, so that other calls may come between them.
\<close>

inductive reachable :: "'v Cache \<Rightarrow> bool" where
  r_New: "reachable (fst (New d ci))"
| r_Set: "reachable c \<Longrightarrow> Set c clk key val d = Inr (u, c') \<Longrightarrow> reachable c'"
| r_Get: "reachable c \<Longrightarrow> Get c clk key = Inr (r, c') \<Longrightarrow> reachable c'"
| r_Delete: "reachable c \<Longrightarrow> Delete c key = Inr (e, c') \<Longrightarrow> reachable c'"
| r_GetItem: "reachable c \<Longrightarrow> GetItem c clk key = Inr (g, c') \<Longrightarrow> reachable c'"
| r_Expire: "reachable c \<Longrightarrow> Expire c clk key = Inr (b, c') \<Longrightarrow> reachable c'"
| r_Count: "reachable c \<Longrightarrow> Count c = Inr (n, c') \<Longrightarrow> reachable c'"
| r_expiredKeys: "reachable c \<Longrightarrow> expiredKeys c clk = Inr (keys, c') \<Longrightarrow> reachable c'"
| r_clearItems: "reachable c \<Longrightarrow> clearItems c keys = Inr (u, c') \<Longrightarrow> reachable c'"

section \<open>The mutex\<close>

lemma Lock_held: "writer m \<Longrightarrow> Lock m = Inl Blocked"
  by (simp add: Lock_def)

lemma RLock_held: "writer m \<Longrightarrow> RLock m = Inl Blocked"
  by (simp add: RLock_def)

lemma RLock_RUnlock: "\<not> writer m \<Longrightarrow> \<exists>m1. RLock m = Inr m1 \<and> RUnlock m1 = Inr m"
  by (simp add: RLock_def RUnlock_def)

text \<open>Three calls return with the write lock held.\<close>

lemma Set_keeps_lock: "Set c clk key val d = Inr (u, c') \<Longrightarrow> writer (mu c')"
  by (auto simp: Set_def Lock_def Let_def split: if_splits)

lemma Delete_miss_keeps_lock: "Delete c key = Inr (Some e, c') \<Longrightarrow> writer (mu c')"
  by (auto simp: Delete_def Lock_def Unlock_def split: if_splits option.splits)

lemma clearItems_keeps_lock: "clearItems c keys = Inr (u, c') \<Longrightarrow> writer (mu c')"
  by (auto simp: clearItems_def Lock_def split: if_splits)

text \<open>While the write lock is held, every call that takes the mutex waits.\<close>

lemma write_locked_blocks:
  assumes "writer (mu c)"
  shows "Set c clk key val d = Inl Blocked"
    and "Get c clk key = Inl Blocked"
    and "Delete c key = Inl Blocked"
    and "GetItem c clk key = Inl Blocked"
    and "Expire c clk key = Inl Blocked"
    and "expiredKeys c clk = Inl Blocked"
    and "gcPass c clk = Inl Blocked"
    and "clearItems c keys = Inl Blocked"
  using assms
  by (simp_all add: Set_def Get_def Delete_def GetItem_def Expire_def expiredKeys_def
      gcPass_def clearItems_def Lock_def RLock_def Let_def)

section \<open>The calls on a cache whose write lock is free\<close>

lemma Get_free:
  "\<not> writer (mu c) \<Longrightarrow>
   Get c clk key =
     Inr (case map_of (items c) key of
            None \<Rightarrow> (None, False)
          | Some item \<Rightarrow> if live item (clk 0) then (Value item, True) else (None, False), c)"
  by (simp add: Get_def RLock_def RUnlock_def live_def split: option.splits)

lemma GetItem_free:
  "\<not> writer (mu c) \<Longrightarrow>
   GetItem c clk key =
     Inr (case map_of (items c) key of
            None \<Rightarrow> Inl ''key not found''
          | Some item \<Rightarrow> if live item (clk 0) then Inr item else Inl ''key not found'', c)"
  by (simp add: GetItem_def RLock_def RUnlock_def live_def split: option.splits)

lemma Expire_free:
  "\<not> writer (mu c) \<Longrightarrow>
   Expire c clk key =
     Inr (case map_of (items c) key of
            None \<Rightarrow> True
          | Some item \<Rightarrow> \<not> live item (clk 0), c)"
  by (simp add: Expire_def RLock_def RUnlock_def live_def split: option.splits)

lemma live_at_expiry: "live item (Expiration item)"
  by (simp add: live_def word_sless_alt)

lemma Delete_free:
  "\<not> writer (mu c) \<Longrightarrow> readers (mu c) = 0 \<Longrightarrow>
   Delete c key =
     (case map_of (items c) key of
        None \<Rightarrow> Inr (Some ''key not found'', c\<lparr>mu := mu c\<lparr>writer := True\<rparr>\<rparr>)
      | Some item \<Rightarrow> Inr (None, c\<lparr>items := AList.delete key (items c)\<rparr>))"
  by (simp add: Delete_def Lock_def Unlock_def split: option.splits)

lemma gcPass_free:
  "\<not> writer (mu c) \<Longrightarrow> readers (mu c) = 0 \<Longrightarrow>
   gcPass c clk =
     (if expiredLoop (items c) clk 0 [] = [] then Inr ((), c)
      else Inr ((), c\<lparr>mu := mu c\<lparr>writer := True\<rparr>,
                      items := clearLoop (expiredLoop (items c) clk 0 []) (items c)\<rparr>))"
  by (simp add: gcPass_def expiredKeys_def clearItems_def RLock_def RUnlock_def Lock_def)

text \<open>The calls that only read hand back the state they were given.\<close>

lemma reader_calls_keep_state:
  shows "Get c clk key = Inr (r, c') \<Longrightarrow> c' = c"
    and "GetItem c clk key = Inr (g, c') \<Longrightarrow> c' = c"
    and "Expire c clk key = Inr (b, c') \<Longrightarrow> c' = c"
    and "expiredKeys c clk = Inr (keys, c') \<Longrightarrow> c' = c"
    and "Count c = Inr (n, c') \<Longrightarrow> c' = c"
  by (auto simp: Get_def GetItem_def Expire_def expiredKeys_def Count_def RLock_def RUnlock_def
      Let_def split: if_splits option.splits)

section \<open>The two loops of the sweep\<close>

text \<open>
  An entry is collected exactly when its \<^verbatim>\<open>Expiration\<close> is positive and smaller than
  the reading taken at that entry; the keys collected are then removed and no others.
\<close>

lemma expiredLoop_fixed:
  "expiredLoop xs (fixedClock t) n acc =
     acc @ map fst (filter (\<lambda>(k, i). Expiration i <s t \<and> 0 <s Expiration i) xs)"
  by (induction xs arbitrary: n acc) (auto simp: fixedClock_def split: prod.splits)

lemma expiredLoop_set:
  "set (expiredLoop xs clk n acc) =
     set acc \<union> {fst (xs ! j) | j. j < length xs \<and>
                   Expiration (snd (xs ! j)) <s clk (n + j) \<and> 0 <s Expiration (snd (xs ! j))}"
proof (induction xs arbitrary: n acc)
  case Nil
  show ?case by simp
next
  case (Cons x xs)
  obtain k i where x: "x = (k, i)" by (cases x)
  have split: "{fst ((x # xs) ! j) | j. j < length (x # xs) \<and>
                   Expiration (snd ((x # xs) ! j)) <s clk (n + j) \<and> 0 <s Expiration (snd ((x # xs) ! j))}
     = (if Expiration i <s clk n \<and> 0 <s Expiration i then {k} else {}) \<union>
       {fst (xs ! j) | j. j < length xs \<and>
                   Expiration (snd (xs ! j)) <s clk (Suc n + j) \<and> 0 <s Expiration (snd (xs ! j))}"
    (is "?L = ?A \<union> ?B")
  proof (intro set_eqI iffI)
    fix y assume "y \<in> ?L"
    then obtain j where j: "j < length (x # xs)" "y = fst ((x # xs) ! j)"
      "Expiration (snd ((x # xs) ! j)) <s clk (n + j)" "0 <s Expiration (snd ((x # xs) ! j))"
      by blast
    show "y \<in> ?A \<union> ?B"
    proof (cases j)
      case 0
      with j x show ?thesis by simp
    next
      case (Suc j')
      with j have "j' < length xs" "y = fst (xs ! j')"
        "Expiration (snd (xs ! j')) <s clk (Suc n + j')" "0 <s Expiration (snd (xs ! j'))"
        by simp_all
      then show ?thesis by blast
    qed
  next
    fix y assume "y \<in> ?A \<union> ?B"
    then consider "y \<in> ?A" | "y \<in> ?B" by blast
    then show "y \<in> ?L"
    proof cases
      case 1
      then have "y = fst ((x # xs) ! 0)" "Expiration (snd ((x # xs) ! 0)) <s clk (n + 0)"
        "0 <s Expiration (snd ((x # xs) ! 0))" "0 < length (x # xs)"
        using x by (simp_all split: if_splits)
      then show ?thesis by blast
    next
      case 2
      then obtain j where "j < length xs" "y = fst (xs ! j)"
        "Expiration (snd (xs ! j)) <s clk (Suc n + j)" "0 <s Expiration (snd (xs ! j))"
        by blast
      then have "Suc j < length (x # xs)" "y = fst ((x # xs) ! Suc j)"
        "Expiration (snd ((x # xs) ! Suc j)) <s clk (n + Suc j)"
        "0 <s Expiration (snd ((x # xs) ! Suc j))"
        by simp_all
      then show ?thesis by blast
    qed
  qed
  show ?case
    unfolding x expiredLoop.simps Cons.IH split [unfolded x] by auto
qed

lemma clearLoop_map_of:
  "map_of (clearLoop ks its) = map_of its |` (- set ks)"
proof (induction ks arbitrary: its)
  case Nil
  show ?case by simp
next
  case (Cons k ks)
  show ?case
    by (rule ext) (simp add: Cons.IH delete_conv' restrict_map_def)
qed

section \<open>What a program can reach\<close>

text \<open>
  Between calls nobody holds a read lock, and the mapping is empty unless the write lock
  is held: the only call that adds an entry is \<^verbatim>\<open>Set\<close>, which keeps the lock, and
  the only \<^verbatim>\<open>Unlock\<close> sits behind a \<^verbatim>\<open>Lock\<close> of the same call.
\<close>

lemma reachable_locked_or_empty:
  "reachable c \<Longrightarrow> readers (mu c) = 0 \<and> (writer (mu c) \<or> items c = [])"
proof (induction rule: reachable.induct)
  case (r_New d ci)
  show ?case by (simp add: New_def Let_def)
next
  case (r_Set c clk key val d u c')
  then show ?case
    by (auto simp: Set_def Lock_def Let_def split: if_splits)
next
  case (r_Delete c key e c')
  then show ?case
    by (auto simp: Delete_def Lock_def Unlock_def split: if_splits option.splits)
next
  case (r_clearItems c keys u c')
  then show ?case
    by (auto simp: clearItems_def Lock_def split: if_splits)
qed (auto dest: reader_calls_keep_state)

lemma reachable_Get_never_finds:
  assumes "reachable c" and "Get c clk key = Inr ((v, found), c')"
  shows "\<not> found"
proof (cases "writer (mu c)")
  case True
  then show ?thesis using assms(2) by (simp add: write_locked_blocks)
next
  case False
  then have "items c = []"
    using reachable_locked_or_empty [OF assms(1)] by simp
  then show ?thesis
    using assms(2) False by (simp add: Get_free)
qed

lemma reachable_Delete_never_succeeds:
  assumes "reachable c"
  shows "Delete c key \<noteq> Inr (None, c')"
proof (cases "writer (mu c)")
  case True
  then show ?thesis by (simp add: write_locked_blocks)
next
  case False
  then have "items c = []" and "readers (mu c) = 0"
    using reachable_locked_or_empty [OF assms] by simp_all
  then show ?thesis
    using False by (simp add: Delete_free)
qed

text \<open>
  So from \<^verbatim>\<open>New\<close> on, no call ever serves a stored entry, overwrites one or removes
  one: each of these needs the mutex on a cache that already holds an entry.
\<close>

lemma reachable_GetItem_never_succeeds:
  assumes "reachable c"
  shows "GetItem c clk key \<noteq> Inr (Inr it, c')"
proof (cases "writer (mu c)")
  case True
  then show ?thesis by (simp add: write_locked_blocks)
next
  case False
  then have "items c = []"
    using reachable_locked_or_empty [OF assms] by simp
  then show ?thesis
    using False by (simp add: GetItem_free)
qed

lemma reachable_Expire_never_false:
  assumes "reachable c" and "Expire c clk key = Inr (b, c')"
  shows "b"
proof (cases "writer (mu c)")
  case True
  then show ?thesis using assms(2) by (simp add: write_locked_blocks)
next
  case False
  then have "items c = []"
    using reachable_locked_or_empty [OF assms(1)] by simp
  then show ?thesis
    using assms(2) False by (simp add: Expire_free)
qed

lemma reachable_gcPass_deletes_nothing:
  assumes "reachable c" and "gcPass c clk = Inr (u, c')"
  shows "c' = c \<and> items c = []"
proof (cases "writer (mu c)")
  case True
  then show ?thesis using assms(2) by (simp add: write_locked_blocks)
next
  case False
  then have "items c = []" and "readers (mu c) = 0"
    using reachable_locked_or_empty [OF assms(1)] by simp_all
  then show ?thesis
    using assms(2) False by (simp add: gcPass_free)
qed

lemma reachable_Set_never_overwrites:
  assumes "reachable c" and "Set c clk key val d = Inr (u, c')"
  shows "items c = []"
proof (cases "writer (mu c)")
  case True
  then show ?thesis using assms(2) by (simp add: write_locked_blocks)
next
  case False
  then show ?thesis
    using reachable_locked_or_empty [OF assms(1)] by simp
qed

text \<open>
  Whatever the cache, the clocks and the arguments: a call that takes the mutex after a
  \<^verbatim>\<open>Set\<close> does not return.
\<close>

lemma after_Set_all_wait:
  shows "andThen (Set c clk key val d) (\<lambda>c'. Get c' clk' key') = Inl Blocked"
    and "andThen (Set c clk key val d) (\<lambda>c'. GetItem c' clk' key') = Inl Blocked"
    and "andThen (Set c clk key val d) (\<lambda>c'. Expire c' clk' key') = Inl Blocked"
    and "andThen (Set c clk key val d) (\<lambda>c'. Delete c' key') = Inl Blocked"
    and "andThen (Set c clk key val d) (\<lambda>c'. Set c' clk' key' val' d') = Inl Blocked"
    and "andThen (Set c clk key val d) (\<lambda>c'. gcPass c' clk') = Inl Blocked"
proof -
  have "Set c clk key val d = Inl Blocked \<or>
        (\<exists>c'. Set c clk key val d = Inr ((), c') \<and> writer (mu c'))"
    by (simp add: Set_def Lock_def Let_def)
  then show "andThen (Set c clk key val d) (\<lambda>c'. Get c' clk' key') = Inl Blocked"
    and "andThen (Set c clk key val d) (\<lambda>c'. GetItem c' clk' key') = Inl Blocked"
    and "andThen (Set c clk key val d) (\<lambda>c'. Expire c' clk' key') = Inl Blocked"
    and "andThen (Set c clk key val d) (\<lambda>c'. Delete c' key') = Inl Blocked"
    and "andThen (Set c clk key val d) (\<lambda>c'. Set c' clk' key' val' d') = Inl Blocked"
    and "andThen (Set c clk key val d) (\<lambda>c'. gcPass c' clk') = Inl Blocked"
    by (auto simp: andThen_def write_locked_blocks)
qed

text \<open>The loop has no way out: it never returns, however many turns it is given.\<close>

lemma gc_never_returns: "gc turns c clks \<noteq> Some (Inr r)"
  by (induction turns arbitrary: c clks) (auto split: sum.splits)

section \<open>Counting, distinct keys and the expiration arithmetic\<close>

lemma countLoop_eq: "countLoop xs n = n + int (length xs)"
  by (induction xs arbitrary: n) simp_all

lemma card_dom_map_of: "distinct (map fst xs) \<Longrightarrow> card (dom (map_of xs)) = length xs"
  by (metis distinct_card dom_map_of_conv_image_fst length_map list.set_map)

lemma distinct_clearLoop:
  "distinct (map fst its) \<Longrightarrow> distinct (map fst (clearLoop ks its))"
  by (induction ks arbitrary: its) (simp_all add: distinct_delete)

text \<open>Every call keeps the keys of the list pairwise different.\<close>

lemma reachable_distinct: "reachable c \<Longrightarrow> distinct (map fst (items c))"
proof (induction rule: reachable.induct)
  case (r_New d ci)
  show ?case by (simp add: New_def Let_def)
next
  case (r_Set c clk key val d u c')
  then show ?case
    by (auto simp: Set_def Let_def distinct_update split: sum.splits)
next
  case (r_Delete c key e c')
  then show ?case
    by (auto simp: Delete_def distinct_delete split: sum.splits option.splits)
next
  case (r_clearItems c keys u c')
  then show ?case
    by (auto simp: clearItems_def distinct_clearLoop split: sum.splits)
qed (auto dest: reader_calls_keep_state)

lemma list_all_update:
  "P (k, v) \<Longrightarrow> list_all P xs \<Longrightarrow> list_all P (AList.update k v xs)"
  by (induction xs) auto

section \<open>The two constructors\<close>

text \<open>
  The loop of the first copy's \<^verbatim>\<open>startGC\<close> is the loop of \<^verbatim>\<open>gc\<close>. On a cache that is
  empty and unlocked every turn finds nothing and leaves the cache as it is, so the loop
  goes on: the first copy's \<^verbatim>\<open>New\<close> does not return when the sweep interval is positive,
  while the second copy's \<^verbatim>\<open>New\<close> returns and leaves the loop to the goroutine.
\<close>

lemma startGC_inline_is_gc: "startGC_inline turns c clks = gc turns c clks"
  by (induction turns arbitrary: c clks)
     (auto simp: gcPass_def split: sum.splits prod.splits)

lemma gc_on_empty:
  "items c = [] \<Longrightarrow> \<not> writer (mu c) \<Longrightarrow> readers (mu c) = 0 \<Longrightarrow> gc turns c clks = None"
  by (induction turns arbitrary: clks) (simp_all add: gcPass_free)

lemma New_inline_never_returns:
  "0 <s ci \<Longrightarrow> New_inline turns clks d ci = None"
  by (simp add: New_inline_def startGC_inline_is_gc gc_on_empty)

lemma New_inline_no_sweep:
  "\<not> 0 <s ci \<Longrightarrow>
   New_inline turns clks d ci =
     Some (Inr \<lparr>mu = \<lparr>writer = False, readers = 0\<rparr>, defaultExpiration = d,
                cleanupInterval = ci, items = []\<rparr>)"
  by (simp add: New_inline_def)

lemma New_detached:
  "New d ci =
     (\<lparr>mu = \<lparr>writer = False, readers = 0\<rparr>, defaultExpiration = d, cleanupInterval = ci,
       items = []\<rparr>,
      if 0 <s ci then [gc] else [])"
  by (simp add: New_def startGC_def)

lemma New_goroutine_keeps_running:
  "g \<in> set (snd (New d ci)) \<Longrightarrow> g turns (fst (New d ci)) clks = None"
  by (auto simp: New_def startGC_def Let_def gc_on_empty split: if_splits)

lemma New_goroutine_stuck_after_Set:
  "g \<in> set (snd (New d ci)) \<Longrightarrow> Set c clk key val dur = Inr (u, c') \<Longrightarrow>
   g (Suc turns) c' clks = Some (Inl Blocked)"
  by (auto simp: New_def startGC_def Let_def write_locked_blocks dest: Set_keeps_lock split: if_splits)

lemma sint_add_wraps_negative:
  fixes a b :: int64
  assumes "2 ^ 63 \<le> sint a + sint b"
  shows "a + b <s 0"
proof -
  have ua: "sint a < 2 ^ 63" and ub: "sint b < 2 ^ 63"
    using sint_lt [of a] sint_lt [of b] by simp_all
  have "sint (a + b) = signed_take_bit 63 (sint a + sint b)"
    by (simp add: sint_word_ariths)
  also have "\<dots> \<le> sint a + sint b - 2 ^ Suc 63"
    using assms by (rule signed_take_bit_int_less_eq)
  also have "\<dots> < 0"
    using ua ub by simp
  finally show ?thesis
    by (simp add: word_sless_alt)
qed

lemma sint_add_exact:
  fixes a b :: int64
  assumes "0 < sint b" and "sint a + sint b < 2 ^ 63"
  shows "sint (a + b) = sint a + sint b"
proof -
  have la: "- (2 ^ 63) \<le> sint a"
    using sint_ge [of a] by simp
  have "sint (a + b) = signed_take_bit 63 (sint a + sint b)"
    by (simp add: sint_word_ariths)
  also have "\<dots> = sint a + sint b"
    using assms la by (intro signed_take_bit_int_eq_self) auto
  finally show ?thesis .
qed

lemma Set_entry:
  assumes "Set c clk key val d = Inr (u, c1)"
  shows "items c1 =
           AList.update key
             \<lparr>Value = val,
              Created = clk (if 0 <s (if d = 0 then defaultExpiration c else d) then 1 else 0),
              Expiration = (if 0 <s (if d = 0 then defaultExpiration c else d)
                            then clk 0 + (if d = 0 then defaultExpiration c else d) else 0)\<rparr>
             (items c)"
  using assms by (auto simp: Set_def Let_def split: sum.splits)

lemma delete_subset: "set (AList.delete k xs) \<subseteq> set xs"
  by (auto simp: AList.delete_eq)

lemma clearLoop_subset: "set (clearLoop ks xs) \<subseteq> set xs"
proof (induction ks arbitrary: xs)
  case Nil
  show ?case by simp
next
  case (Cons k ks)
  have "set (clearLoop ks (AList.delete k xs)) \<subseteq> set (AList.delete k xs)"
    by (rule Cons.IH)
  then show ?case
    using delete_subset [of k xs] by auto
qed

lemma clearLoop_mem: "x \<in> set (clearLoop ks xs) \<Longrightarrow> x \<in> set xs"
  using clearLoop_subset [of ks xs] by auto

lemma delete_mem: "x \<in> set (AList.delete k xs) \<Longrightarrow> x \<in> set xs"
  using delete_subset [of k xs] by auto

lemma Delete_only_removes:
  "Delete c key = Inr (e, c2) \<Longrightarrow> set (items c2) \<subseteq> set (items c)"
  by (auto simp: Delete_def split: sum.splits option.splits dest: delete_mem)

lemma clearItems_only_removes:
  "clearItems c keys = Inr (w, c3) \<Longrightarrow> set (items c3) \<subseteq> set (items c)"
  by (auto simp: clearItems_def split: sum.splits dest: clearLoop_mem)

lemma gcPass_only_removes:
  assumes "gcPass c clk = Inr (w, c4)"
  shows "set (items c4) \<subseteq> set (items c)"
proof -
  obtain keys c1 where ek: "expiredKeys c clk = Inr (keys, c1)"
    and r: "c4 = c1 \<or> clearItems c1 keys = Inr (w, c4)"
    using assms by (auto simp: gcPass_def split: sum.splits if_splits)
  have "c1 = c"
    using ek by (rule reader_calls_keep_state(4))
  then show ?thesis
    using r clearItems_only_removes [of c keys w c4] by auto
qed

lemmas removals_only_remove =
  Delete_only_removes clearItems_only_removes gcPass_only_removes

lemma nonneg_subset:
  "set (items c') \<subseteq> set (items c) \<Longrightarrow> nonnegExpirations c \<Longrightarrow> nonnegExpirations c'"
  by (auto simp: nonnegExpirations_def list_all_iff)

section \<open>The statements of the specification\<close>

text \<open>
  C1. \<^verbatim>\<open>Get\<close> is to return the stored value with found = true for a key that is present
  and not expired. On the cache that \<^verbatim>\<open>New(0, 0)\<close> and one \<^verbatim>\<open>Set("k", "v", 0)\<close> leave
  behind, \<^verbatim>\<open>Get("k")\<close> does not return: \<^verbatim>\<open>Set\<close> came back with the write lock held and
  \<^verbatim>\<open>Get\<close> waits in \<^verbatim>\<open>RLock\<close>. The same holds for a key that is absent.
\<close>

theorem Get_after_Set_waits:
  "andThen (Set (fst (New 0 0)) (fixedClock 1800000000000000000) ''k'' (Some ''v'') 0)
     (\<lambda>c. Get c (fixedClock 1800000000000000001) ''k'') = Inl Blocked
   \<and> andThen (Set (fst (New 0 0)) (fixedClock 1800000000000000000) ''k'' (Some ''v'') 0)
     (\<lambda>c. Get c (fixedClock 1800000000000000001) ''absent'') = Inl Blocked"
  by (simp add: andThen_def Set_def New_def Get_def Lock_def RLock_def)

text \<open>
  C2. \<^verbatim>\<open>Set\<close> is to insert or overwrite the entry unconditionally. The first \<^verbatim>\<open>Set\<close> on
  a new cache stores the entry; a second \<^verbatim>\<open>Set\<close> on the same cache waits in \<^verbatim>\<open>Lock\<close>,
  because the first one never released the mutex, and the entry is not overwritten.
\<close>

theorem Set_after_Set_waits:
  "Set (fst (New 0 0)) (fixedClock 1800000000000000000) ''k'' (Some ''v'') 0 =
     Inr ((), \<lparr>mu = \<lparr>writer = True, readers = 0\<rparr>, defaultExpiration = 0, cleanupInterval = 0,
               items = [(''k'', \<lparr>Value = Some ''v'', Created = 1800000000000000000,
                                 Expiration = 0\<rparr>)]\<rparr>)
   \<and> andThen (Set (fst (New 0 0)) (fixedClock 1800000000000000000) ''k'' (Some ''v'') 0)
     (\<lambda>c. Set c (fixedClock 1800000000000000001) ''k'' (Some ''w'') 0) = Inl Blocked"
  by (simp add: andThen_def Set_def New_def Lock_def fixedClock_def word_sless_alt)

text \<open>
  C3. A pass of the sweep is to collect the expired keys and delete them. With a sweep
  interval of one second, an entry stored with a lifetime of one nanosecond is expired
  when the timer fires two seconds later, but the pass waits in \<^verbatim>\<open>RLock\<close> behind the
  write lock that \<^verbatim>\<open>Set\<close> left held: nothing is collected and nothing is deleted.
\<close>

theorem gcPass_after_Set_waits:
  "andThen (Set (fst (New 0 1000000000)) (fixedClock 1800000000000000000) ''k'' (Some ''v'') 1)
     (\<lambda>c. gcPass c (fixedClock 1800000002000000000)) = Inl Blocked"
  by (simp add: andThen_def Set_def New_def Let_def gcPass_def expiredKeys_def Lock_def RLock_def)

text \<open>
  C4. \<^verbatim>\<open>New\<close> is to return with the sweep left to a task of its own when the sweep
  interval is positive. With an interval of one second, the \<^verbatim>\<open>New\<close> of the first copy
  has not returned after any number of timer expiries, whatever the clocks: it is inside
  \<^verbatim>\<open>startGC\<close>, which runs the loop itself. The \<^verbatim>\<open>New\<close> of the second copy returns the
  unlocked, empty cache with both durations and has started \<^verbatim>\<open>gc\<close> as a goroutine.
\<close>

theorem New_inline_waits:
  "New_inline turns clks 0 1000000000 = None
   \<and> New 0 1000000000 =
       (\<lparr>mu = \<lparr>writer = False, readers = 0\<rparr>, defaultExpiration = 0,
         cleanupInterval = 1000000000, items = []\<rparr>, [gc])"
  by (simp add: New_inline_never_returns New_detached word_sless_alt)

text \<open>
  C5. \<^verbatim>\<open>Delete\<close> is to remove a present key and return no error, and to report
  "key not found" for an absent one. After \<^verbatim>\<open>Set("k", "v", 0)\<close> the call
  \<^verbatim>\<open>Delete("k")\<close> waits in \<^verbatim>\<open>Lock\<close>; and after one \<^verbatim>\<open>Delete\<close> of an absent key, which
  returns the error without unlocking, a second one waits as well.
\<close>

theorem Delete_after_Set_waits:
  "andThen (Set (fst (New 0 0)) (fixedClock 1800000000000000000) ''k'' (Some ''v'') 0)
     (\<lambda>c. Delete c ''k'') = Inl Blocked
   \<and> Delete (fst (New 0 0)) ''k'' =
       Inr (Some ''key not found'',
            \<lparr>mu = \<lparr>writer = True, readers = 0\<rparr>, defaultExpiration = 0, cleanupInterval = 0,
             items = []\<rparr>)
   \<and> andThen (Delete (fst (New 0 0)) ''k'') (\<lambda>c. Delete c ''k'') = Inl Blocked"
  by (simp add: andThen_def Set_def New_def Delete_def Lock_def)

text \<open>
  C6. \<^verbatim>\<open>Expire\<close> is to return false for a key that is present and live. After
  \<^verbatim>\<open>Set("k", "v", 0)\<close> the call \<^verbatim>\<open>Expire("k")\<close> waits in \<^verbatim>\<open>RLock\<close> and returns
  nothing.
\<close>

theorem Expire_after_Set_waits:
  "andThen (Set (fst (New 0 0)) (fixedClock 1800000000000000000) ''k'' (Some ''v'') 0)
     (\<lambda>c. Expire c (fixedClock 1800000000000000001) ''k'') = Inl Blocked"
  by (simp add: andThen_def Set_def New_def Expire_def Lock_def RLock_def)

text \<open>
  C7. \<^verbatim>\<open>GetItem\<close> is to return a copy of the entry for a key that is present and live.
  After \<^verbatim>\<open>Set("k", "v", 0)\<close> the call \<^verbatim>\<open>GetItem("k")\<close> waits in \<^verbatim>\<open>RLock\<close> and returns
  neither an entry nor an error.
\<close>

theorem GetItem_after_Set_waits:
  "andThen (Set (fst (New 0 0)) (fixedClock 1800000000000000000) ''k'' (Some ''v'') 0)
     (\<lambda>c. GetItem c (fixedClock 1800000000000000001) ''k'') = Inl Blocked"
  by (simp add: andThen_def Set_def New_def GetItem_def Lock_def RLock_def)

text \<open>
  C8. \<^verbatim>\<open>Count\<close> returns the number of entries held, whatever their \<^verbatim>\<open>Expiration\<close> and
  whatever the state of the mutex, and hands back the cache as it was; with one pair per
  key that number is the number of keys of the mapping.
\<close>

theorem Count_exact:
  "Count c = Inr (int (length (items c)), c) \<and>
   (distinct (map fst (items c)) \<longrightarrow> length (items c) = card (dom (map_of (items c))))"
  by (simp add: Count_def countLoop_eq card_dom_map_of)

theorem Count_exact_witness:
  "Count \<lparr>mu = \<lparr>writer = True, readers = 0\<rparr>, defaultExpiration = 0, cleanupInterval = 0,
          items = [(''old'', \<lparr>Value = Some ''v'', Created = 5, Expiration = 7\<rparr>),
                   (''new'', \<lparr>Value = Some ''w'', Created = 9, Expiration = 0\<rparr>)]\<rparr>
   = Inr (2, \<lparr>mu = \<lparr>writer = True, readers = 0\<rparr>, defaultExpiration = 0, cleanupInterval = 0,
          items = [(''old'', \<lparr>Value = Some ''v'', Created = 5, Expiration = 7\<rparr>),
                   (''new'', \<lparr>Value = Some ''w'', Created = 9, Expiration = 0\<rparr>)]\<rparr>)
   \<and> card (dom (map_of [(''old'', \<lparr>Value = Some ''v'', Created = 5 :: int64, Expiration = 7 :: int64\<rparr>),
                   (''new'', \<lparr>Value = Some ''w'', Created = 9, Expiration = 0\<rparr>)])) = 2"
  using Count_exact [of "\<lparr>mu = \<lparr>writer = True, readers = 0\<rparr>, defaultExpiration = 0, cleanupInterval = 0,
          items = [(''old'', \<lparr>Value = Some ''v'', Created = 5, Expiration = 7\<rparr>),
                   (''new'', \<lparr>Value = Some ''w'', Created = 9, Expiration = 0\<rparr>)]\<rparr>"]
  by simp

text \<open>
  C9, as stated: no stored \<^verbatim>\<open>Expiration\<close> is negative, for every input to \<^verbatim>\<open>Set\<close>. It
  fails for a duration of \<open>2^63 - 1\<close> nanoseconds: the 64-bit sum of the clock reading
  and the duration wraps, and the entry is stored with a negative \<^verbatim>\<open>Expiration\<close>.
\<close>

theorem Set_overflow_negative:
  "Set (fst (New 0 0)) (fixedClock 1800000000000000000) ''k'' (Some ''v'') 9223372036854775807 =
     Inr ((), \<lparr>mu = \<lparr>writer = True, readers = 0\<rparr>, defaultExpiration = 0, cleanupInterval = 0,
               items = [(''k'', \<lparr>Value = Some ''v'', Created = 1800000000000000000,
                                 Expiration = - 7423372036854775809\<rparr>)]\<rparr>)
   \<and> (- 7423372036854775809 :: int64) <s 0"
  by (simp add: Set_def New_def Lock_def fixedClock_def word_sless_alt)

text \<open>
  C9, amended. A \<^verbatim>\<open>Set\<close> that returns has stored, under its key, an entry with the given
  value whose \<^verbatim>\<open>Expiration\<close> is
  \<^item> 0 when the effective duration (the argument, or the default when the argument is 0)
    is not positive;
  \<^item> the sum of the reading and the effective duration, later than the reading and, with
    the clock at or after the epoch, positive, when the effective duration is positive
    and the sum is below \<open>2^63\<close>;
  \<^item> negative when the effective duration is positive and the sum is \<open>2^63\<close> or more.

  \<^verbatim>\<open>Set\<close> leaves every other entry as it was; so with the clock at or after the epoch
  and a sum below \<open>2^63\<close>, a mapping without negative \<^verbatim>\<open>Expiration\<close> stays one. What
  \<^verbatim>\<open>Delete\<close>, \<^verbatim>\<open>clearItems\<close> and a pass of the sweep leave in the mapping was there
  before, so they bring in no negative \<^verbatim>\<open>Expiration\<close> either.
\<close>

theorem Set_expiration_cases:
  "(Set c clk key val d = Inr (u, cS) \<longrightarrow>
      (let eff = (if d = 0 then defaultExpiration c else d) in
       (\<exists>it. map_of (items cS) key = Some it \<and> Value it = val \<and>
             (\<not> 0 <s eff \<longrightarrow> Expiration it = 0) \<and>
             (0 <s eff \<longrightarrow> sint (clk 0) + sint eff < 2 ^ 63 \<longrightarrow>
                sint (Expiration it) = sint (clk 0) + sint eff \<and> clk 0 <s Expiration it \<and>
                (0 \<le>s clk 0 \<longrightarrow> 0 <s Expiration it)) \<and>
             (0 <s eff \<longrightarrow> 2 ^ 63 \<le> sint (clk 0) + sint eff \<longrightarrow> Expiration it <s 0)) \<and>
       (\<forall>k. k \<noteq> key \<longrightarrow> map_of (items cS) k = map_of (items c) k) \<and>
       (nonnegExpirations c \<longrightarrow> 0 \<le>s clk 0 \<longrightarrow>
          (0 <s eff \<longrightarrow> sint (clk 0) + sint eff < 2 ^ 63) \<longrightarrow> nonnegExpirations cS)))
   \<and> (Delete c key = Inr (e, cD) \<longrightarrow>
        set (items cD) \<subseteq> set (items c) \<and> (nonnegExpirations c \<longrightarrow> nonnegExpirations cD))
   \<and> (clearItems c keys = Inr (w, cC) \<longrightarrow>
        set (items cC) \<subseteq> set (items c) \<and> (nonnegExpirations c \<longrightarrow> nonnegExpirations cC))
   \<and> (gcPass c clk = Inr (w, cG) \<longrightarrow>
        set (items cG) \<subseteq> set (items c) \<and> (nonnegExpirations c \<longrightarrow> nonnegExpirations cG))"
proof -
  define eff where "eff = (if d = 0 then defaultExpiration c else d)"
  define ex where "ex = (if 0 <s eff then clk 0 + eff else 0)"
  define it where "it = \<lparr>Value = val, Created = clk (if 0 <s eff then 1 else 0), Expiration = ex\<rparr>"
  have exact: "sint ex = sint (clk 0) + sint eff \<and> clk 0 <s ex \<and> (0 \<le>s clk 0 \<longrightarrow> 0 <s ex)"
    if "0 <s eff" "sint (clk 0) + sint eff < 2 ^ 63"
  proof -
    have p: "0 < sint eff" using that(1) by (simp add: word_sless_alt)
    have "sint (clk 0 + eff) = sint (clk 0) + sint eff"
      using p that(2) by (rule sint_add_exact)
    then show ?thesis
      using p that(1) by (simp add: ex_def word_sless_alt word_sle_eq)
  qed
  have wrap: "ex <s 0" if "0 <s eff" "2 ^ 63 \<le> sint (clk 0) + sint eff"
    using that sint_add_wraps_negative [of "clk 0" eff] by (simp add: ex_def)
  have zero: "ex = 0" if "\<not> 0 <s eff"
    using that by (simp add: ex_def)
  have setpart: "(\<exists>it. map_of (items cS) key = Some it \<and> Value it = val \<and>
             (\<not> 0 <s eff \<longrightarrow> Expiration it = 0) \<and>
             (0 <s eff \<longrightarrow> sint (clk 0) + sint eff < 2 ^ 63 \<longrightarrow>
                sint (Expiration it) = sint (clk 0) + sint eff \<and> clk 0 <s Expiration it \<and>
                (0 \<le>s clk 0 \<longrightarrow> 0 <s Expiration it)) \<and>
             (0 <s eff \<longrightarrow> 2 ^ 63 \<le> sint (clk 0) + sint eff \<longrightarrow> Expiration it <s 0)) \<and>
       (\<forall>k. k \<noteq> key \<longrightarrow> map_of (items cS) k = map_of (items c) k) \<and>
       (nonnegExpirations c \<longrightarrow> 0 \<le>s clk 0 \<longrightarrow>
          (0 <s eff \<longrightarrow> sint (clk 0) + sint eff < 2 ^ 63) \<longrightarrow> nonnegExpirations cS)"
    if s: "Set c clk key val d = Inr (u, cS)"
  proof -
    have cS: "items cS = AList.update key it (items c)"
      using Set_entry [OF s] by (simp add: it_def ex_def eff_def)
    have look: "map_of (items cS) key = Some it"
      by (simp add: cS update_conv')
    have frame: "\<forall>k. k \<noteq> key \<longrightarrow> map_of (items cS) k = map_of (items c) k"
      by (simp add: cS update_conv')
    have inv: "nonnegExpirations cS"
      if "nonnegExpirations c" "0 \<le>s clk 0" "0 <s eff \<longrightarrow> sint (clk 0) + sint eff < 2 ^ 63"
    proof -
      have "0 \<le>s ex"
      proof (cases "0 <s eff")
        case True
        then have "0 <s ex" using exact that by simp
        then show ?thesis by (simp add: word_sle_eq word_sless_alt)
      next
        case False
        then show ?thesis by (simp add: zero)
      qed
      then show ?thesis
        using that(1) by (simp add: nonnegExpirations_def cS list_all_update it_def)
    qed
    have va: "Value it = val" and ei: "Expiration it = ex"
      by (simp_all add: it_def)
    show ?thesis
            using look frame inv exact wrap zero va ei by (intro conjI exI [of _ it]) simp_all
  qed
  have s1: "Set c clk key val d = Inr (u, cS) \<longrightarrow>
      (let eff = (if d = 0 then defaultExpiration c else d) in
       (\<exists>it. map_of (items cS) key = Some it \<and> Value it = val \<and>
             (\<not> 0 <s eff \<longrightarrow> Expiration it = 0) \<and>
             (0 <s eff \<longrightarrow> sint (clk 0) + sint eff < 2 ^ 63 \<longrightarrow>
                sint (Expiration it) = sint (clk 0) + sint eff \<and> clk 0 <s Expiration it \<and>
                (0 \<le>s clk 0 \<longrightarrow> 0 <s Expiration it)) \<and>
             (0 <s eff \<longrightarrow> 2 ^ 63 \<le> sint (clk 0) + sint eff \<longrightarrow> Expiration it <s 0)) \<and>
       (\<forall>k. k \<noteq> key \<longrightarrow> map_of (items cS) k = map_of (items c) k) \<and>
       (nonnegExpirations c \<longrightarrow> 0 \<le>s clk 0 \<longrightarrow>
          (0 <s eff \<longrightarrow> sint (clk 0) + sint eff < 2 ^ 63) \<longrightarrow> nonnegExpirations cS))"
    unfolding Let_def eff_def [symmetric] using setpart by (rule impI)
  have s2: "Delete c key = Inr (e, cD) \<longrightarrow>
        set (items cD) \<subseteq> set (items c) \<and> (nonnegExpirations c \<longrightarrow> nonnegExpirations cD)"
    using removals_only_remove(1) [of c key e cD] nonneg_subset [of cD c] by simp
  have s3: "clearItems c keys = Inr (w, cC) \<longrightarrow>
        set (items cC) \<subseteq> set (items c) \<and> (nonnegExpirations c \<longrightarrow> nonnegExpirations cC)"
    using removals_only_remove(2) [of c keys w cC] nonneg_subset [of cC c] by simp
  have s4: "gcPass c clk = Inr (w, cG) \<longrightarrow>
        set (items cG) \<subseteq> set (items c) \<and> (nonnegExpirations c \<longrightarrow> nonnegExpirations cG)"
    using removals_only_remove(3) [of c clk w cG] nonneg_subset [of cG c] by simp
  show ?thesis
    using s1 s2 s3 s4 by (intro conjI)
qed

theorem Set_expiration_cases_witness:
  "Set (fst (New (- 7) 0) :: string Cache) (fixedClock 1800000000000000000) ''k'' (Some ''v'') 0 =
     Inr ((), \<lparr>mu = \<lparr>writer = True, readers = 0\<rparr>, defaultExpiration = - 7,
        cleanupInterval = 0,
        items = [(''k'', \<lparr>Value = Some ''v'', Created = 1800000000000000000, Expiration = 0\<rparr>)]\<rparr>)
   \<and> nonnegExpirations
       \<lparr>mu = \<lparr>writer = True, readers = 0\<rparr>, defaultExpiration = - 7,
        cleanupInterval = 0,
        items = [(''k'', \<lparr>Value = Some ''v'', Created = 1800000000000000000, Expiration = 0\<rparr>)]\<rparr>
   \<and> Set (fst (New 0 0) :: string Cache) (fixedClock 1800000000000000000) ''k'' (Some ''v'') 5 =
     Inr ((), \<lparr>mu = \<lparr>writer = True, readers = 0\<rparr>, defaultExpiration = 0,
        cleanupInterval = 0,
        items = [(''k'', \<lparr>Value = Some ''v'', Created = 1800000000000000000, Expiration = 1800000000000000005\<rparr>)]\<rparr>)
   \<and> nonnegExpirations
       \<lparr>mu = \<lparr>writer = True, readers = 0\<rparr>, defaultExpiration = 0,
        cleanupInterval = 0,
        items = [(''k'', \<lparr>Value = Some ''v'', Created = 1800000000000000000, Expiration = 1800000000000000005\<rparr>)]\<rparr>
   \<and> Set (fst (New 0 0) :: string Cache) (fixedClock 1800000000000000000) ''k'' (Some ''v'') 9223372036854775807 =
     Inr ((), \<lparr>mu = \<lparr>writer = True, readers = 0\<rparr>, defaultExpiration = 0,
        cleanupInterval = 0,
        items = [(''k'', \<lparr>Value = Some ''v'', Created = 1800000000000000000, Expiration = - 7423372036854775809\<rparr>)]\<rparr>)
   \<and> \<not> nonnegExpirations
       \<lparr>mu = \<lparr>writer = True, readers = 0\<rparr>, defaultExpiration = 0,
        cleanupInterval = 0,
        items = [(''k'', \<lparr>Value = Some ''v'', Created = 1800000000000000000, Expiration = - 7423372036854775809\<rparr>)]\<rparr>
   \<and> Set \<lparr>mu = \<lparr>writer = False, readers = 0\<rparr>, defaultExpiration = 0,
        cleanupInterval = 0,
        items = [(''old'', \<lparr>Value = Some ''v'', Created = 5, Expiration = 7\<rparr>),
                 (''new'', \<lparr>Value = Some ''w'', Created = 9, Expiration = 0\<rparr>)]\<rparr>
       (fixedClock 1800000000000000000) ''k'' (Some ''v'') 5 =
     Inr ((), \<lparr>mu = \<lparr>writer = True, readers = 0\<rparr>, defaultExpiration = 0,
        cleanupInterval = 0,
        items = [(''old'', \<lparr>Value = Some ''v'', Created = 5, Expiration = 7\<rparr>),
                 (''new'', \<lparr>Value = Some ''w'', Created = 9, Expiration = 0\<rparr>),
                 (''k'', \<lparr>Value = Some ''v'', Created = 1800000000000000000, Expiration = 1800000000000000005\<rparr>)]\<rparr>)
   \<and> nonnegExpirations
       \<lparr>mu = \<lparr>writer = True, readers = 0\<rparr>, defaultExpiration = 0,
        cleanupInterval = 0,
        items = [(''old'', \<lparr>Value = Some ''v'', Created = 5, Expiration = 7\<rparr>),
                 (''new'', \<lparr>Value = Some ''w'', Created = 9, Expiration = 0\<rparr>),
                 (''k'', \<lparr>Value = Some ''v'', Created = 1800000000000000000, Expiration = 1800000000000000005\<rparr>)]\<rparr>
   \<and> Delete \<lparr>mu = \<lparr>writer = False, readers = 0\<rparr>, defaultExpiration = 0,
        cleanupInterval = 0,
        items = [(''old'', \<lparr>Value = Some ''v'', Created = 5, Expiration = 7\<rparr>),
                 (''new'', \<lparr>Value = Some ''w'', Created = 9, Expiration = 0\<rparr>)]\<rparr> ''old'' =
     Inr (None, \<lparr>mu = \<lparr>writer = False, readers = 0\<rparr>, defaultExpiration = 0,
        cleanupInterval = 0,
        items = [(''new'', \<lparr>Value = Some ''w'', Created = 9, Expiration = 0\<rparr>)]\<rparr>)
   \<and> nonnegExpirations
       \<lparr>mu = \<lparr>writer = False, readers = 0\<rparr>, defaultExpiration = 0,
        cleanupInterval = 0,
        items = [(''new'', \<lparr>Value = Some ''w'', Created = 9, Expiration = 0\<rparr>)]\<rparr>
   \<and> clearItems \<lparr>mu = \<lparr>writer = False, readers = 0\<rparr>, defaultExpiration = 0,
        cleanupInterval = 0,
        items = [(''old'', \<lparr>Value = Some ''v'', Created = 5, Expiration = 7\<rparr>),
                 (''new'', \<lparr>Value = Some ''w'', Created = 9, Expiration = 0\<rparr>)]\<rparr> [''old''] =
     Inr ((), \<lparr>mu = \<lparr>writer = True, readers = 0\<rparr>, defaultExpiration = 0,
        cleanupInterval = 0,
        items = [(''new'', \<lparr>Value = Some ''w'', Created = 9, Expiration = 0\<rparr>)]\<rparr>)
   \<and> nonnegExpirations
       \<lparr>mu = \<lparr>writer = True, readers = 0\<rparr>, defaultExpiration = 0,
        cleanupInterval = 0,
        items = [(''new'', \<lparr>Value = Some ''w'', Created = 9, Expiration = 0\<rparr>)]\<rparr>
   \<and> gcPass \<lparr>mu = \<lparr>writer = False, readers = 0\<rparr>, defaultExpiration = 0,
        cleanupInterval = 0,
        items = [(''old'', \<lparr>Value = Some ''v'', Created = 5, Expiration = 7\<rparr>),
                 (''new'', \<lparr>Value = Some ''w'', Created = 9, Expiration = 0\<rparr>)]\<rparr> (fixedClock 9) =
     Inr ((), \<lparr>mu = \<lparr>writer = True, readers = 0\<rparr>, defaultExpiration = 0,
        cleanupInterval = 0,
        items = [(''new'', \<lparr>Value = Some ''w'', Created = 9, Expiration = 0\<rparr>)]\<rparr>)"
proof -
  have sA: "Set (fst (New (- 7) 0) :: string Cache) (fixedClock 1800000000000000000) ''k'' (Some ''v'') 0 =
       Inr ((), \<lparr>mu = \<lparr>writer = True, readers = 0\<rparr>, defaultExpiration = - 7,
          cleanupInterval = 0,
          items = [(''k'', \<lparr>Value = Some ''v'', Created = 1800000000000000000, Expiration = 0\<rparr>)]\<rparr>)"
    by (simp add: Set_def New_def Lock_def fixedClock_def word_sless_alt)
  have sB: "Set (fst (New 0 0) :: string Cache) (fixedClock 1800000000000000000) ''k'' (Some ''v'') 5 =
       Inr ((), \<lparr>mu = \<lparr>writer = True, readers = 0\<rparr>, defaultExpiration = 0,
          cleanupInterval = 0,
          items = [(''k'', \<lparr>Value = Some ''v'', Created = 1800000000000000000, Expiration = 1800000000000000005\<rparr>)]\<rparr>)"
    by (simp add: Set_def New_def Lock_def fixedClock_def word_sless_alt)
  have sC: "Set (fst (New 0 0) :: string Cache) (fixedClock 1800000000000000000) ''k'' (Some ''v'') 9223372036854775807 =
       Inr ((), \<lparr>mu = \<lparr>writer = True, readers = 0\<rparr>, defaultExpiration = 0,
          cleanupInterval = 0,
          items = [(''k'', \<lparr>Value = Some ''v'', Created = 1800000000000000000, Expiration = - 7423372036854775809\<rparr>)]\<rparr>)"
    by (simp add: Set_def New_def Lock_def fixedClock_def word_sless_alt)
  have sG: "Set \<lparr>mu = \<lparr>writer = False, readers = 0\<rparr>, defaultExpiration = 0,
          cleanupInterval = 0,
          items = [(''old'', \<lparr>Value = Some ''v'', Created = 5, Expiration = 7\<rparr>),
                   (''new'', \<lparr>Value = Some ''w'', Created = 9, Expiration = 0\<rparr>)]\<rparr>
         (fixedClock 1800000000000000000) ''k'' (Some ''v'') 5 =
       Inr ((), \<lparr>mu = \<lparr>writer = True, readers = 0\<rparr>, defaultExpiration = 0,
          cleanupInterval = 0,
          items = [(''old'', \<lparr>Value = Some ''v'', Created = 5, Expiration = 7\<rparr>),
                   (''new'', \<lparr>Value = Some ''w'', Created = 9, Expiration = 0\<rparr>),
                   (''k'', \<lparr>Value = Some ''v'', Created = 1800000000000000000, Expiration = 1800000000000000005\<rparr>)]\<rparr>)"
    by (simp add: Set_def Lock_def fixedClock_def word_sless_alt)
  have dF: "Delete \<lparr>mu = \<lparr>writer = False, readers = 0\<rparr>, defaultExpiration = 0,
          cleanupInterval = 0,
          items = [(''old'', \<lparr>Value = Some ''v'', Created = 5, Expiration = 7\<rparr>),
                   (''new'', \<lparr>Value = Some ''w'', Created = 9, Expiration = 0\<rparr>)]\<rparr> ''old'' =
       Inr (None, \<lparr>mu = \<lparr>writer = False, readers = 0\<rparr>, defaultExpiration = 0,
          cleanupInterval = 0,
          items = [(''new'', \<lparr>Value = Some ''w'', Created = 9, Expiration = 0\<rparr>)]\<rparr>)"
    by (simp add: Delete_def Lock_def Unlock_def)
  have cF: "clearItems \<lparr>mu = \<lparr>writer = False, readers = 0\<rparr>, defaultExpiration = 0,
          cleanupInterval = 0,
          items = [(''old'', \<lparr>Value = Some ''v'', Created = 5, Expiration = 7\<rparr>),
                   (''new'', \<lparr>Value = Some ''w'', Created = 9, Expiration = 0\<rparr>)]\<rparr> [''old''] =
       Inr ((), \<lparr>mu = \<lparr>writer = True, readers = 0\<rparr>, defaultExpiration = 0,
          cleanupInterval = 0,
          items = [(''new'', \<lparr>Value = Some ''w'', Created = 9, Expiration = 0\<rparr>)]\<rparr>)"
    by (simp add: clearItems_def Lock_def)
  have gF: "gcPass \<lparr>mu = \<lparr>writer = False, readers = 0\<rparr>, defaultExpiration = 0,
          cleanupInterval = 0,
          items = [(''old'', \<lparr>Value = Some ''v'', Created = 5, Expiration = 7\<rparr>),
                   (''new'', \<lparr>Value = Some ''w'', Created = 9, Expiration = 0\<rparr>)]\<rparr> (fixedClock 9) =
       Inr ((), \<lparr>mu = \<lparr>writer = True, readers = 0\<rparr>, defaultExpiration = 0,
          cleanupInterval = 0,
          items = [(''new'', \<lparr>Value = Some ''w'', Created = 9, Expiration = 0\<rparr>)]\<rparr>)"
    by (simp add: gcPass_def expiredKeys_def clearItems_def RLock_def RUnlock_def Lock_def fixedClock_def word_sless_alt)
  have n0: "nonnegExpirations (fst (New (- 7) 0) :: string Cache)"
    and n1: "nonnegExpirations (fst (New 0 0) :: string Cache)"
    by (simp_all add: nonnegExpirations_def New_def)
  have nF: "nonnegExpirations
         \<lparr>mu = \<lparr>writer = False, readers = 0\<rparr>, defaultExpiration = 0,
          cleanupInterval = 0,
          items = [(''old'', \<lparr>Value = Some ''v'', Created = 5, Expiration = 7\<rparr>),
                   (''new'', \<lparr>Value = Some ''w'', Created = 9, Expiration = 0\<rparr>)]\<rparr>"
    by (simp add: nonnegExpirations_def word_sle_eq)
  have ep: "0 \<le>s fixedClock 1800000000000000000 0"
    by (simp add: fixedClock_def word_sle_eq)
  have nA: "nonnegExpirations
         \<lparr>mu = \<lparr>writer = True, readers = 0\<rparr>, defaultExpiration = - 7,
          cleanupInterval = 0,
          items = [(''k'', \<lparr>Value = Some ''v'', Created = 1800000000000000000, Expiration = 0\<rparr>)]\<rparr>"
    using Set_expiration_cases [where c = "(fst (New (- 7) 0) :: string Cache)"
          and clk = "fixedClock 1800000000000000000" and key = "''k''" and val = "Some ''v''"
          and d = 0 and u = "()" and cS = "\<lparr>mu = \<lparr>writer = True, readers = 0\<rparr>, defaultExpiration = - 7,
            cleanupInterval = 0,
            items = [(''k'', \<lparr>Value = Some ''v'', Created = 1800000000000000000, Expiration = 0\<rparr>)]\<rparr>"]
      sA n0 ep
    by (simp add: Let_def New_def fixedClock_def word_sless_alt)
  have nB: "nonnegExpirations
         \<lparr>mu = \<lparr>writer = True, readers = 0\<rparr>, defaultExpiration = 0,
          cleanupInterval = 0,
          items = [(''k'', \<lparr>Value = Some ''v'', Created = 1800000000000000000, Expiration = 1800000000000000005\<rparr>)]\<rparr>"
    using Set_expiration_cases [where c = "(fst (New 0 0) :: string Cache)"
          and clk = "fixedClock 1800000000000000000" and key = "''k''" and val = "Some ''v''"
          and d = 5 and u = "()" and cS = "\<lparr>mu = \<lparr>writer = True, readers = 0\<rparr>, defaultExpiration = 0,
            cleanupInterval = 0,
            items = [(''k'', \<lparr>Value = Some ''v'', Created = 1800000000000000000, Expiration = 1800000000000000005\<rparr>)]\<rparr>"]
      sB n1 ep
    by (simp add: Let_def New_def fixedClock_def word_sless_alt)
  have xC: "- 7423372036854775809 <s (0 :: int64)"
    using Set_expiration_cases [where c = "(fst (New 0 0) :: string Cache)"
          and clk = "fixedClock 1800000000000000000" and key = "''k''" and val = "Some ''v''"
          and d = 9223372036854775807 and u = "()" and cS = "\<lparr>mu = \<lparr>writer = True, readers = 0\<rparr>, defaultExpiration = 0,
            cleanupInterval = 0,
            items = [(''k'', \<lparr>Value = Some ''v'', Created = 1800000000000000000, Expiration = - 7423372036854775809\<rparr>)]\<rparr>"]
      sC
    by (simp add: Let_def New_def fixedClock_def word_sless_alt)
  then have nC: "\<not> nonnegExpirations
         \<lparr>mu = \<lparr>writer = True, readers = 0\<rparr>, defaultExpiration = 0,
          cleanupInterval = 0,
          items = [(''k'', \<lparr>Value = Some ''v'', Created = 1800000000000000000, Expiration = - 7423372036854775809\<rparr>)]\<rparr>"
    by (simp add: nonnegExpirations_def word_sle_eq word_sless_alt)
  note f = Set_expiration_cases [where c = "\<lparr>mu = \<lparr>writer = False, readers = 0\<rparr>, defaultExpiration = 0,
            cleanupInterval = 0,
            items = [(''old'', \<lparr>Value = Some ''v'', Created = 5, Expiration = 7\<rparr>),
                     (''new'', \<lparr>Value = Some ''w'', Created = 9, Expiration = 0\<rparr>)]\<rparr>"
          and clk = "fixedClock 1800000000000000000" and key = "''k''" and val = "Some ''v''"
          and d = 5 and u = "()" and cS = "\<lparr>mu = \<lparr>writer = True, readers = 0\<rparr>, defaultExpiration = 0,
            cleanupInterval = 0,
            items = [(''old'', \<lparr>Value = Some ''v'', Created = 5, Expiration = 7\<rparr>),
                     (''new'', \<lparr>Value = Some ''w'', Created = 9, Expiration = 0\<rparr>),
                     (''k'', \<lparr>Value = Some ''v'', Created = 1800000000000000000, Expiration = 1800000000000000005\<rparr>)]\<rparr>"]
  have nG: "nonnegExpirations
         \<lparr>mu = \<lparr>writer = True, readers = 0\<rparr>, defaultExpiration = 0,
          cleanupInterval = 0,
          items = [(''old'', \<lparr>Value = Some ''v'', Created = 5, Expiration = 7\<rparr>),
                   (''new'', \<lparr>Value = Some ''w'', Created = 9, Expiration = 0\<rparr>),
                   (''k'', \<lparr>Value = Some ''v'', Created = 1800000000000000000, Expiration = 1800000000000000005\<rparr>)]\<rparr>"
    using f sG nF ep
    by (simp add: Let_def fixedClock_def word_sless_alt)
  have nD: "nonnegExpirations
         \<lparr>mu = \<lparr>writer = False, readers = 0\<rparr>, defaultExpiration = 0,
          cleanupInterval = 0,
          items = [(''new'', \<lparr>Value = Some ''w'', Created = 9, Expiration = 0\<rparr>)]\<rparr>"
    using Set_expiration_cases [where c = "\<lparr>mu = \<lparr>writer = False, readers = 0\<rparr>, defaultExpiration = 0,
            cleanupInterval = 0,
            items = [(''old'', \<lparr>Value = Some ''v'', Created = 5, Expiration = 7\<rparr>),
                     (''new'', \<lparr>Value = Some ''w'', Created = 9, Expiration = 0\<rparr>)]\<rparr>"
          and key = "''old''" and e = None and cD = "\<lparr>mu = \<lparr>writer = False, readers = 0\<rparr>, defaultExpiration = 0,
            cleanupInterval = 0,
            items = [(''new'', \<lparr>Value = Some ''w'', Created = 9, Expiration = 0\<rparr>)]\<rparr>"]
      dF nF
    by simp
  have nCl: "nonnegExpirations
         \<lparr>mu = \<lparr>writer = True, readers = 0\<rparr>, defaultExpiration = 0,
          cleanupInterval = 0,
          items = [(''new'', \<lparr>Value = Some ''w'', Created = 9, Expiration = 0\<rparr>)]\<rparr>"
    using Set_expiration_cases [where c = "\<lparr>mu = \<lparr>writer = False, readers = 0\<rparr>, defaultExpiration = 0,
            cleanupInterval = 0,
            items = [(''old'', \<lparr>Value = Some ''v'', Created = 5, Expiration = 7\<rparr>),
                     (''new'', \<lparr>Value = Some ''w'', Created = 9, Expiration = 0\<rparr>)]\<rparr>"
          and keys = "[''old'']" and w = "()" and cC = "\<lparr>mu = \<lparr>writer = True, readers = 0\<rparr>, defaultExpiration = 0,
            cleanupInterval = 0,
            items = [(''new'', \<lparr>Value = Some ''w'', Created = 9, Expiration = 0\<rparr>)]\<rparr>"]
      cF nF
    by simp
  have nCg: "nonnegExpirations
         \<lparr>mu = \<lparr>writer = True, readers = 0\<rparr>, defaultExpiration = 0,
          cleanupInterval = 0,
          items = [(''new'', \<lparr>Value = Some ''w'', Created = 9, Expiration = 0\<rparr>)]\<rparr>"
    using Set_expiration_cases [where c = "\<lparr>mu = \<lparr>writer = False, readers = 0\<rparr>, defaultExpiration = 0,
            cleanupInterval = 0,
            items = [(''old'', \<lparr>Value = Some ''v'', Created = 5, Expiration = 7\<rparr>),
                     (''new'', \<lparr>Value = Some ''w'', Created = 9, Expiration = 0\<rparr>)]\<rparr>"
          and clk = "fixedClock 9" and w = "()" and cG = "\<lparr>mu = \<lparr>writer = True, readers = 0\<rparr>, defaultExpiration = 0,
            cleanupInterval = 0,
            items = [(''new'', \<lparr>Value = Some ''w'', Created = 9, Expiration = 0\<rparr>)]\<rparr>"]
      gF nF
    by simp
  show ?thesis
    using sA nA sB nB sC nC sG nG dF nD cF nCl gF by (intro conjI)
qed

text \<open>
  C10. At the instant equal to its \<^verbatim>\<open>Expiration\<close> an entry is to be served as live.
  An entry stored with a lifetime of five nanoseconds has \<^verbatim>\<open>Expiration\<close> five past the
  reading; with the clock at exactly that instant \<^verbatim>\<open>Get\<close>, \<^verbatim>\<open>GetItem\<close>, \<^verbatim>\<open>Expire\<close> and
  the scan of the sweep all wait in \<^verbatim>\<open>RLock\<close> behind the write lock that \<^verbatim>\<open>Set\<close> left
  held, and none of them returns.
\<close>

theorem calls_at_expiry_wait:
  "Set (fst (New 0 1000000000)) (fixedClock 1800000000000000000) ''k'' (Some ''v'') 5 =
     Inr ((), \<lparr>mu = \<lparr>writer = True, readers = 0\<rparr>, defaultExpiration = 0,
               cleanupInterval = 1000000000,
               items = [(''k'', \<lparr>Value = Some ''v'', Created = 1800000000000000000,
                                 Expiration = 1800000000000000005\<rparr>)]\<rparr>)
   \<and> andThen (Set (fst (New 0 1000000000)) (fixedClock 1800000000000000000) ''k'' (Some ''v'') 5)
       (\<lambda>c. Get c (fixedClock 1800000000000000005) ''k'') = Inl Blocked
   \<and> andThen (Set (fst (New 0 1000000000)) (fixedClock 1800000000000000000) ''k'' (Some ''v'') 5)
       (\<lambda>c. GetItem c (fixedClock 1800000000000000005) ''k'') = Inl Blocked
   \<and> andThen (Set (fst (New 0 1000000000)) (fixedClock 1800000000000000000) ''k'' (Some ''v'') 5)
       (\<lambda>c. Expire c (fixedClock 1800000000000000005) ''k'') = Inl Blocked
   \<and> andThen (Set (fst (New 0 1000000000)) (fixedClock 1800000000000000000) ''k'' (Some ''v'') 5)
       (\<lambda>c. expiredKeys c (fixedClock 1800000000000000005)) = Inl Blocked"
  by (simp add: andThen_def Set_def New_def Let_def Get_def GetItem_def Expire_def
      expiredKeys_def Lock_def RLock_def fixedClock_def word_sless_alt)

end
